theory Spec2Isabelle
  imports Complex_Main "HOL-Library.Sublist" "HOL-Library.List_Lexorder"
begin

section \<open>Python values\<close>

text \<open>
  A Python \<open>str\<close> is a sequence of Unicode code points; it is modelled as the list of
  their numbers, so that the Cyrillic messages of the program can be written down and
  \<open>str.strip\<close> sees the characters Python sees. \<open>ascii\<close> turns an ASCII literal
  into such a string.
\<close>

type_synonym pystr = "nat list"

definition ascii :: "string \<Rightarrow> pystr" where
  "ascii s = map of_char s"

text \<open>
  The values \<open>json.load\<close> produces, which are also the values the result
  dictionary of \<open>run_checker\<close> is built from. A \<open>dict\<close> is its list of items in
  insertion order; the keys of a Python dict are pairwise distinct (\<open>wf_json\<close>).
  A \<open>float\<close> carries the number it denotes; the program never computes with it.
  \<open>bool\<close> is a type of its own: \<open>type(True) is int\<close> is false in Python.
\<close>

datatype json =
    JNull
  | JBool bool
  | JInt int
  | JFloat real
  | JStr pystr
  | JList "json list"
  | JDict "(pystr \<times> json) list"

fun wf_json :: "json \<Rightarrow> bool"
and wf_items :: "(pystr \<times> json) list \<Rightarrow> bool"
and wf_elems :: "json list \<Rightarrow> bool" where
  "wf_json (JDict kvs) = (distinct (map fst kvs) \<and> wf_items kvs)"
| "wf_json (JList xs) = wf_elems xs"
| "wf_json JNull = True"
| "wf_json (JBool b) = True"
| "wf_json (JInt i) = True"
| "wf_json (JFloat r) = True"
| "wf_json (JStr s) = True"
| "wf_items [] = True"
| "wf_items (kv # kvs) = (wf_json (snd kv) \<and> wf_items kvs)"
| "wf_elems [] = True"
| "wf_elems (v # vs) = (wf_json v \<and> wf_elems vs)"

text \<open>\<open>d[k] = v\<close>: an existing key keeps its place and gets the new value, a new key
  goes to the end. \<open>d.get(k)\<close> is \<open>map_of\<close>.\<close>

fun dict_set :: "('k \<times> 'v) list \<Rightarrow> 'k \<Rightarrow> 'v \<Rightarrow> ('k \<times> 'v) list" where
  "dict_set [] k v = [(k, v)]"
| "dict_set ((k', v') # kvs) k v =
     (if k' = k then (k, v) # kvs else (k', v') # dict_set kvs k v)"

text \<open>\<open>v is None\<close>, \<open>v == ""\<close>, \<open>type(v) is int or type(v) is float\<close>, and the
  truth value of \<open>v\<close> in a condition.\<close>

fun is_None :: "json \<Rightarrow> bool" where
  "is_None JNull = True"
| "is_None _ = False"

fun eq_empty_str :: "json \<Rightarrow> bool" where
  "eq_empty_str (JStr s) = (s = [])"
| "eq_empty_str _ = False"

fun is_int_or_float :: "json \<Rightarrow> bool" where
  "is_int_or_float (JInt i) = True"
| "is_int_or_float (JFloat r) = True"
| "is_int_or_float _ = False"

fun truthy :: "json \<Rightarrow> bool" where
  "truthy JNull = False"
| "truthy (JBool b) = b"
| "truthy (JInt i) = (i \<noteq> 0)"
| "truthy (JFloat r) = (r \<noteq> 0)"
| "truthy (JStr s) = (s \<noteq> [])"
| "truthy (JList xs) = (xs \<noteq> [])"
| "truthy (JDict kvs) = (kvs \<noteq> [])"

text \<open>
  The code points \<open>str.strip()\<close> removes (those for which \<open>str.isspace\<close> holds):
  U+0009..U+000D, U+001C..U+0020, U+0085, U+00A0, U+1680, U+2000..U+200A, U+2028,
  U+2029, U+202F, U+205F and U+3000.
\<close>

definition is_space :: "nat \<Rightarrow> bool" where
  "is_space c \<longleftrightarrow>
     (9 \<le> c \<and> c \<le> 13) \<or> (28 \<le> c \<and> c \<le> 32) \<or> c = 133 \<or> c = 160 \<or> c = 5760 \<or>
     (8192 \<le> c \<and> c \<le> 8202) \<or> c = 8232 \<or> c = 8233 \<or> c = 8239 \<or> c = 8287 \<or> c = 12288"

definition strip :: "pystr \<Rightarrow> pystr" where
  "strip s = rev (dropWhile is_space (rev (dropWhile is_space s)))"

text \<open>
  The truth value of \<open>str(v).strip()\<close>. The \<open>str\<close> of a string is the string itself.
  The \<open>str\<close> of any other value starts with a character that is not white space
  (\<open>None\<close>, \<open>True\<close>, \<open>False\<close>, a digit or sign, \<open>nan\<close>, \<open>inf\<close>, an opening
  bracket or brace), so stripping it leaves a non-empty string.
\<close>

fun str_strip_truthy :: "json \<Rightarrow> bool" where
  "str_strip_truthy (JStr s) = (strip s \<noteq> [])"
| "str_strip_truthy _ = True"

section \<open>Pruning: \<open>remove_empty_from_dict\<close>\<close>

text \<open>
  \<open>prune_items kvs temp\<close> is the loop \<open>for k, v in d.items()\<close> over the remaining
  items with the dictionary \<open>_temp\<close> built so far; \<open>prune_elems\<close> is the list
  comprehension of the \<open>list\<close> branch.
\<close>

function remove_empty_from_dict :: "json \<Rightarrow> json"
and prune_items :: "(pystr \<times> json) list \<Rightarrow> (pystr \<times> json) list \<Rightarrow> (pystr \<times> json) list"
and prune_elems :: "json list \<Rightarrow> json list" where
  "remove_empty_from_dict (JDict kvs) = JDict (prune_items kvs [])"
| "remove_empty_from_dict (JList xs) = JList (prune_elems xs)"
| "remove_empty_from_dict JNull = JNull"
| "remove_empty_from_dict (JBool b) = JBool b"
| "remove_empty_from_dict (JInt i) = JInt i"
| "remove_empty_from_dict (JFloat r) = JFloat r"
| "remove_empty_from_dict (JStr s) = JStr s"
| "prune_items [] temp = temp"
| "prune_items ((k, v) # kvs) temp =
     (if is_None v \<or> eq_empty_str v then prune_items kvs temp
      else if is_int_or_float v
        then prune_items kvs (dict_set temp k (remove_empty_from_dict v))
      else if truthy v \<or> truthy (remove_empty_from_dict v)
        then prune_items kvs (dict_set temp k (remove_empty_from_dict v))
      else prune_items kvs temp)"
| "prune_elems [] = []"
| "prune_elems (v # vs) =
     (if (str_strip_truthy v \<or> str_strip_truthy (remove_empty_from_dict v))
         \<and> (\<not> is_None v \<or> \<not> is_None (remove_empty_from_dict v))
      then remove_empty_from_dict v # prune_elems vs
      else prune_elems vs)"
  by pat_completeness auto
termination
  by (relation "measure (\<lambda>x. case x of
        Inl v \<Rightarrow> size v
      | Inr (Inl (kvs, temp)) \<Rightarrow> size_list (size_prod (\<lambda>k. 0) size) kvs
      | Inr (Inr vs) \<Rightarrow> size_list size vs)") auto

section \<open>The literals of the program\<close>

text \<open>The string literals of \<open>main.py\<close>, as code points. The translations in
  brackets are for the reader only.\<close>

text \<open>The class attribute \<open>UnknownError.message\<close> ("unknown error").\<close>

definition UnknownError_message :: pystr where
  "UnknownError_message =
    [1053, 1077, 1080, 1079, 1074, 1077, 1089, 1090, 1085, 1072, 1103, 32, 1086,
     1096, 1080, 1073, 1082, 1072]"

text \<open>The text before the error in \<open>CorruptedSchema.__str__\<close> ("the schema is invalid: ").\<close>

definition corrupted_prefix :: pystr where
  "corrupted_prefix =
    [1057, 1093, 1077, 1084, 1072, 32, 1085, 1077, 1082, 1086, 1088, 1088, 1077,
     1082, 1090, 1085, 1072, 58, 32]"

text \<open>The message of \<open>check_event_key\<close> for \<open>None\<close> ("no schema given to check against.").\<close>

definition msg_no_event :: pystr where
  "msg_no_event =
    [1053, 1077, 32, 1079, 1072, 1076, 1072, 1085, 1072, 32, 1089, 1093, 1077, 1084,
     1072, 32, 1076, 1083, 1103, 32, 1087, 1088, 1086, 1074, 1077, 1088, 1082, 1080,
     46]"

text \<open>The message of \<open>check_event_key\<close> for a value that is not a \<open>str\<close> ("the schema name must be a string").\<close>

definition msg_event_not_str :: pystr where
  "msg_event_not_str =
    [1042, 32, 1082, 1072, 1095, 1077, 1089, 1090, 1074, 1077, 32, 1085, 1072, 1079,
     1074, 1072, 1085, 1080, 1103, 32, 1089, 1093, 1077, 1084, 1099, 32, 1076, 1086,
     1083, 1078, 1085, 1072, 32, 1073, 1099, 1090, 1100, 32, 1089, 1090, 1088, 1086,
     1082, 1072]"

text \<open>The message of \<open>check_schema_key\<close> for a name the registry does not have ("the given schema does not exist.").\<close>

definition msg_no_schema :: pystr where
  "msg_no_schema =
    [1059, 1082, 1072, 1079, 1072, 1085, 1085, 1086, 1081, 32, 1089, 1093, 1077,
     1084, 1099, 32, 1085, 1077, 32, 1089, 1091, 1097, 1077, 1089, 1090, 1074, 1091,
     1077, 1090, 46]"

text \<open>The message of the second branch of \<open>check_schema_key\<close> ("errors were found in the given schema").\<close>

definition msg_schema_corrupted :: pystr where
  "msg_schema_corrupted =
    [1042, 32, 1091, 1082, 1072, 1079, 1072, 1085, 1085, 1086, 1081, 32, 1089, 1093,
     1077, 1084, 1077, 32, 1074, 1099, 1103, 1074, 1083, 1077, 1085, 1099, 32, 1086,
     1096, 1080, 1073, 1082, 1080]"

text \<open>The message of \<open>check_data_key\<close> ("no data given to check.").\<close>

definition msg_no_data :: pystr where
  "msg_no_data =
    [1053, 1077, 32, 1091, 1082, 1072, 1079, 1072, 1085, 1099, 32, 1076, 1072, 1085,
     1085, 1099, 1077, 32, 1076, 1083, 1103, 32, 1087, 1088, 1086, 1074, 1077, 1088,
     1082, 1080, 46]"

text \<open>The message of \<open>run_checker\<close> when \<open>reader\<close> raises ("this file is not in JSON format").\<close>

definition msg_not_json :: pystr where
  "msg_not_json =
    [1044, 1072, 1085, 1085, 1099, 1081, 32, 1092, 1072, 1081, 1083, 32, 1085, 1077,
     32, 1089, 1086, 1086, 1090, 1074, 1077, 1090, 1089, 1090, 1074, 1091, 1077,
     1090, 32, 1092, 1086, 1088, 1084, 1072, 1090, 1091, 32, 74, 83, 79, 78]"

text \<open>The message of \<open>run_checker\<close> when the parsed value is not a \<open>dict\<close> ("the file must contain a dictionary with data in JSON format").\<close>

definition msg_not_dict :: pystr where
  "msg_not_dict =
    [1060, 1072, 1081, 1083, 32, 1076, 1086, 1083, 1078, 1077, 1085, 32, 1089, 1086,
     1076, 1077, 1088, 1078, 1072, 1090, 1100, 32, 1089, 1083, 1086, 1074, 1072,
     1088, 1100, 32, 1089, 32, 1076, 1072, 1085, 1085, 1099, 1084, 1080, 32, 1074,
     32, 1092, 1086, 1088, 1084, 1072, 1090, 1077, 32, 74, 83, 79, 78]"

text \<open>The first line of the report up to the time ("check carried out ").\<close>

definition report_header :: pystr where
  "report_header =
    [1055, 1088, 1086, 1074, 1077, 1076, 1077, 1085, 1072, 32, 1087, 1088, 1086,
     1074, 1077, 1088, 1082, 1072, 32]"

text \<open>The heading of the schema section ("schema errors found:", newline).\<close>

definition report_schema_section :: pystr where
  "report_schema_section =
    [1042, 1099, 1103, 1074, 1083, 1077, 1085, 1099, 32, 1086, 1096, 1080, 1073,
     1082, 1080, 32, 1089, 1093, 1077, 1084, 1099, 58, 10]"

text \<open>A tab and "in schema ".\<close>

definition report_in_schema :: pystr where
  "report_in_schema =
    [9, 1042, 32, 1089, 1093, 1077, 1084, 1077, 32]"

text \<open>" errors were found:" and a newline.\<close>

definition report_errors_found :: pystr where
  "report_errors_found =
    [32, 1086, 1073, 1085, 1072, 1088, 1091, 1078, 1077, 1085, 1099, 32, 1086, 1096,
     1080, 1073, 1082, 1080, 58, 10]"

text \<open>The heading of the JSON section ("errors of the JSON file found:", newline).\<close>

definition report_json_section :: pystr where
  "report_json_section =
    [1042, 1099, 1103, 1074, 1083, 1077, 1085, 1099, 32, 1086, 1096, 1080, 1073,
     1082, 1080, 32, 74, 83, 79, 78, 32, 1092, 1072, 1081, 1083, 1072, 58, 10]"

text \<open>A tab and "in file ".\<close>

definition report_in_file :: pystr where
  "report_in_file =
    [9, 1042, 32, 1092, 1072, 1081, 1083, 1077, 32]"

section \<open>Exceptions, schemas and files\<close>

text \<open>
  An exception instance: its class and its \<open>str\<close>. Only subclasses of
  \<open>Exception\<close> are modelled, which is what \<open>except Exception\<close> catches.
\<close>

datatype py_exception = PyExc (exc_class: pystr) (exc_str: pystr)

text \<open>What \<open>validator.iter_errors(data)\<close> raises when \<open>validator\<close> is a
  \<open>CorruptedSchema\<close>: the class has no such attribute.\<close>

definition no_iter_errors :: py_exception where
  "no_iter_errors =
     PyExc (ascii ''AttributeError'')
       ([39] @ ascii ''CorruptedSchema'' @ [39] @ ascii '' object has no attribute '' @
        [39] @ ascii ''iter_errors'' @ [39])"

text \<open>What \<open>schemas[name]\<close> raises for a missing key: the \<open>str\<close> of a
  \<open>KeyError\<close> is the \<open>repr\<close> of the key, the key between quotes for a name
  that \<open>repr\<close> has nothing to escape in.\<close>

definition key_error :: "pystr \<Rightarrow> py_exception" where
  "key_error name = PyExc (ascii ''KeyError'') ([39] @ name @ [39])"

text \<open>
  A \<open>jsonschema.ValidationError\<close> as far as the program reads it: its
  \<open>message\<close> attribute and its \<open>str\<close>, the sort key of \<open>check_data\<close>.
\<close>

record validation_error =
  message :: pystr
  error_str :: pystr

text \<open>
  The value of \<open>self.error\<close> in a \<open>CorruptedSchema\<close>: the exception handed to
  the constructor, or an \<open>UnknownError\<close> instance.
\<close>

datatype schema_error = Raised py_exception | UnknownError

text \<open>
  What consuming \<open>validator.iter_errors(data)\<close> does, the conformance check of
  the external library: it yields the errors, or it raises (as for a schema with a
  reference that cannot be resolved, which \<open>check_schema\<close> accepts).
\<close>

type_synonym iter_errors = "json \<Rightarrow> py_exception + validation_error list"

text \<open>
  A value of the schema dictionary: a \<open>Draft7Validator\<close> instance, modelled by
  its method \<open>iter_errors\<close>, or a \<open>CorruptedSchema\<close> instance.
\<close>

datatype schema_obj =
    Draft7Validator iter_errors
  | CorruptedSchema schema_error

type_synonym schemas = "(pystr \<times> schema_obj) list"

text \<open>\<open>CorruptedSchema.__init__\<close>: \<open>self.error = error or UnknownError()\<close>; an
  exception instance is true in a condition.\<close>

fun new_CorruptedSchema :: "py_exception option \<Rightarrow> schema_obj" where
  "new_CorruptedSchema None = CorruptedSchema UnknownError"
| "new_CorruptedSchema (Some err) = CorruptedSchema (Raised err)"

fun str_schema_error :: "schema_error \<Rightarrow> pystr" where
  "str_schema_error UnknownError = UnknownError_message"
| "str_schema_error (Raised err) = exc_str err"

text \<open>\<open>CorruptedSchema.__str__\<close>.\<close>

definition str_CorruptedSchema :: "schema_error \<Rightarrow> pystr" where
  "str_CorruptedSchema e = corrupted_prefix @ str_schema_error e"

text \<open>\<open>isinstance(v, CorruptedSchema)\<close>.\<close>

fun isinstance_CorruptedSchema :: "schema_obj \<Rightarrow> bool" where
  "isinstance_CorruptedSchema (CorruptedSchema e) = True"
| "isinstance_CorruptedSchema (Draft7Validator v) = False"

text \<open>
  \<open>v is CorruptedSchema\<close>: whether \<open>v\<close> is the class object itself. The values of
  the schema dictionary are instances, of \<open>Draft7Validator\<close> or of
  \<open>CorruptedSchema\<close>, and an instance is never its class.
\<close>

fun is_class_CorruptedSchema :: "schema_obj \<Rightarrow> bool" where
  "is_class_CorruptedSchema (CorruptedSchema e) = False"
| "is_class_CorruptedSchema (Draft7Validator v) = False"

text \<open>
  An entry of a directory, with what the file system and the JSON parser do on it:
  \<open>stem\<close> is \<open>path.stem\<close>, \<open>open_error\<close> the exception \<open>open\<close> raises on
  it (if any), and \<open>json_load\<close> what \<open>json.load\<close> does on the opened file
  (the parsed value, or the exception of reading, decoding or parsing).
\<close>

record dir_entry =
  stem :: pystr
  open_error :: "py_exception option"
  json_load :: "py_exception + json"

text \<open>
  The two calls into \<open>jsonschema\<close> that \<open>schema_loader\<close> makes:
  \<open>Draft7Validator.check_schema\<close>, which raises or returns nothing, and the
  constructor \<open>Draft7Validator(json_schema)\<close>.
\<close>

record jsonschema_lib =
  check_schema :: "json \<Rightarrow> py_exception option"
  new_Draft7Validator :: "json \<Rightarrow> py_exception + iter_errors"

section \<open>\<open>schema_loader\<close>\<close>

text \<open>The body of the \<open>try\<close> for one file: the validator, or the first exception.\<close>

definition try_load_schema ::
  "jsonschema_lib \<Rightarrow> dir_entry \<Rightarrow> py_exception + iter_errors" where
  "try_load_schema lib f =
     (case open_error f of
        Some err \<Rightarrow> Inl err
      | None \<Rightarrow>
          (case json_load f of
             Inl err \<Rightarrow> Inl err
           | Inr json_schema \<Rightarrow>
               (case check_schema lib json_schema of
                  Some err \<Rightarrow> Inl err
                | None \<Rightarrow> new_Draft7Validator lib json_schema)))"

text \<open>One round of the loop: \<open>try\<close> and \<open>except Exception as err\<close>.\<close>

definition load_schema :: "jsonschema_lib \<Rightarrow> schemas \<Rightarrow> dir_entry \<Rightarrow> schemas" where
  "load_schema lib schemas f =
     (case try_load_schema lib f of
        Inr validator \<Rightarrow> dict_set schemas (stem f) (Draft7Validator validator)
      | Inl err \<Rightarrow> dict_set schemas (stem f) (new_CorruptedSchema (Some err)))"

text \<open>\<open>schema_loader\<close>, on the entries \<open>PATH_TO_SHEMA.iterdir()\<close> yields.\<close>

definition schema_loader :: "jsonschema_lib \<Rightarrow> dir_entry list \<Rightarrow> schemas" where
  "schema_loader lib files = foldl (load_schema lib) [] files"

section \<open>Checking the documents\<close>

text \<open>\<open>reader\<close>: the parsed file, or the exception of \<open>open\<close> or \<open>json.load\<close>.\<close>

definition reader :: "dir_entry \<Rightarrow> py_exception + json" where
  "reader f = (case open_error f of Some err \<Rightarrow> Inl err | None \<Rightarrow> json_load f)"

text \<open>\<open>d.get(key)\<close> on a parsed object: \<open>None\<close> for a missing key.\<close>

definition dict_get :: "(pystr \<times> json) list \<Rightarrow> pystr \<Rightarrow> json" where
  "dict_get kvs key = (case map_of kvs key of None \<Rightarrow> JNull | Some v \<Rightarrow> v)"

fun check_event_key :: "json \<Rightarrow> pystr list" where
  "check_event_key JNull = [msg_no_event]"
| "check_event_key (JStr s) = []"
| "check_event_key v = [msg_event_not_str]"

definition check_schema_key :: "pystr \<Rightarrow> schemas \<Rightarrow> pystr list" where
  "check_schema_key name schemas =
     (case map_of schemas name of
        None \<Rightarrow> [msg_no_schema]
      | Some obj \<Rightarrow> if is_class_CorruptedSchema obj then [msg_schema_corrupted] else [])"

fun check_data_key :: "json \<Rightarrow> pystr list" where
  "check_data_key JNull = [msg_no_data]"
| "check_data_key v = []"

text \<open>
  \<open>check_data\<close>: the messages of the errors, sorted by their \<open>str\<close> (Python
  compares strings by code point, and \<open>sorted\<close> is stable, as \<open>sort_key\<close> is).
  The call is in no \<open>try\<close>: an exception of \<open>iter_errors\<close> leaves the
  function, and a \<open>CorruptedSchema\<close> has no \<open>iter_errors\<close>. Logging is left out.
\<close>

fun check_data :: "json \<Rightarrow> schema_obj \<Rightarrow> py_exception + pystr list" where
  "check_data data (Draft7Validator iter_errors) =
     (case iter_errors data of
        Inl err \<Rightarrow> Inl err
      | Inr errors \<Rightarrow> Inr (map message (sort_key error_str errors)))"
| "check_data data (CorruptedSchema e) = Inl no_iter_errors"

text \<open>
  The body of the loop of \<open>run_checker\<close> for one file: the messages it appends to
  the list of the file, or the exception that leaves \<open>run_checker\<close>. The branch
  for an \<open>event\<close> that is no string is never reached, since \<open>check_event_key\<close>
  has reported such a value.
\<close>

definition check_file :: "schemas \<Rightarrow> dir_entry \<Rightarrow> py_exception + pystr list" where
  "check_file schemas f =
     (case reader f of
        Inl err \<Rightarrow> Inr [msg_not_json]
      | Inr (JDict event_json) \<Rightarrow>
          (let event_errors = check_event_key (dict_get event_json (ascii ''event''));
               data_errors = check_data_key (dict_get event_json (ascii ''data''))
           in if event_errors = [] then
                (case dict_get event_json (ascii ''event'') of
                   JStr name \<Rightarrow>
                     (let schema_name_errors = check_schema_key name schemas
                      in if schema_name_errors = [] \<and> data_errors = [] then
                           (case map_of schemas name of
                              None \<Rightarrow> Inl (key_error name)
                            | Some validator \<Rightarrow>
                                (case check_data (dict_get event_json (ascii ''data'')) validator of
                                   Inl err \<Rightarrow> Inl err
                                 | Inr result \<Rightarrow>
                                     Inr (event_errors @ data_errors @ schema_name_errors @ result)))
                         else Inr (event_errors @ data_errors @ schema_name_errors))
                 | _ \<Rightarrow> Inr (event_errors @ data_errors))
              else Inr (event_errors @ data_errors))
      | Inr _ \<Rightarrow> Inr [msg_not_dict])"

text \<open>\<open>errors[stem].extend(msgs)\<close>, for a key the dictionary has.\<close>

fun dict_extend :: "('k \<times> 'v list) list \<Rightarrow> 'k \<Rightarrow> 'v list \<Rightarrow> ('k \<times> 'v list) list" where
  "dict_extend [] k new = []"
| "dict_extend ((k', old) # kvs) k new =
     (if k' = k then (k', old @ new) # kvs else (k', old) # dict_extend kvs k new)"

text \<open>The loop over the files; an exception ends it.\<close>

fun check_files ::
  "schemas \<Rightarrow> dir_entry list \<Rightarrow> (pystr \<times> pystr list) list
     \<Rightarrow> py_exception + (pystr \<times> pystr list) list" where
  "check_files schemas [] errors = Inr errors"
| "check_files schemas (f # fs) errors =
     (case check_file schemas f of
        Inl err \<Rightarrow> Inl err
      | Inr msgs \<Rightarrow> check_files schemas fs (dict_extend errors (stem f) msgs))"

text \<open>\<open>{path.stem: [] for path in files_paths}\<close>.\<close>

definition init_errors :: "dir_entry list \<Rightarrow> (pystr \<times> pystr list) list" where
  "init_errors files = foldl (\<lambda>d f. dict_set d (stem f) []) [] files"

text \<open>The dictionary comprehension for \<open>"schema_errors"\<close>.\<close>

fun schema_errors_of :: "schemas \<Rightarrow> (pystr \<times> json) list" where
  "schema_errors_of [] = []"
| "schema_errors_of ((k, CorruptedSchema e) # rest) =
     (k, JStr (str_CorruptedSchema e)) # schema_errors_of rest"
| "schema_errors_of ((k, Draft7Validator v) # rest) = schema_errors_of rest"

definition json_errors_of :: "(pystr \<times> pystr list) list \<Rightarrow> (pystr \<times> json) list" where
  "json_errors_of errors = map (\<lambda>(k, msgs). (k, JList (map JStr msgs))) errors"

text \<open>
  \<open>run_checker\<close>, on the entries \<open>PATH_TO_EVENT.iterdir()\<close> yields: the result
  dictionary as a Python value, or the exception that leaves the function.
\<close>

definition run_checker :: "schemas \<Rightarrow> dir_entry list \<Rightarrow> py_exception + json" where
  "run_checker schemas files_paths =
     (case check_files schemas files_paths (init_errors files_paths) of
        Inl err \<Rightarrow> Inl err
      | Inr errors \<Rightarrow>
          Inr (JDict [(ascii ''schema_errors'', JDict (schema_errors_of schemas)),
                      (ascii ''json_errors'', JDict (json_errors_of errors))]))"

section \<open>\<open>make_report\<close>\<close>

text \<open>
  \<open>make_report\<close> is modelled on the values \<open>main\<close> hands to it: a dictionary
  whose \<open>"schema_errors"\<close> value, when the key is there, is a dictionary of strings and
  whose \<open>"json_errors"\<close> value, when the key is there, is a dictionary of lists of
  strings. On any other value the model gives \<open>None\<close>, which says nothing about
  Python. \<open>now\<close> is \<open>str(datetime.now())\<close>. Logging is left out.
\<close>

text \<open>The lines for the items of \<open>result["schema_errors"]\<close>.\<close>

fun schema_lines :: "(pystr \<times> json) list \<Rightarrow> pystr list option" where
  "schema_lines [] = Some []"
| "schema_lines ((name, JStr error) # rest) =
     map_option
       (\<lambda>ls. (report_in_schema @ name @ report_errors_found) # ([9] @ error @ [10]) # ls)
       (schema_lines rest)"
| "schema_lines ((name, v) # rest) = None"

text \<open>The lines of \<open>for error in errors\<close>.\<close>

fun error_lines :: "json list \<Rightarrow> pystr list option" where
  "error_lines [] = Some []"
| "error_lines (JStr error # rest) =
     map_option (\<lambda>ls. ([9] @ error @ [10]) # ls) (error_lines rest)"
| "error_lines (v # rest) = None"

text \<open>The lines for the items of \<open>result["json_errors"]\<close>.\<close>

fun json_lines :: "(pystr \<times> json) list \<Rightarrow> pystr list option" where
  "json_lines [] = Some []"
| "json_lines ((name, JList errors) # rest) =
     (case error_lines errors of
        None \<Rightarrow> None
      | Some es \<Rightarrow>
          map_option (\<lambda>ls. (report_in_file @ name @ report_errors_found) # es @ ls)
            (json_lines rest))"
| "json_lines ((name, v) # rest) = None"

definition schema_section :: "(pystr \<times> json) list \<Rightarrow> pystr list option" where
  "schema_section result =
     (case map_of result (ascii ''schema_errors'') of
        None \<Rightarrow> Some []
      | Some (JDict items) \<Rightarrow> map_option (\<lambda>ls. report_schema_section # ls) (schema_lines items)
      | Some _ \<Rightarrow> None)"

definition json_section :: "(pystr \<times> json) list \<Rightarrow> pystr list option" where
  "json_section result =
     (case map_of result (ascii ''json_errors'') of
        None \<Rightarrow> Some []
      | Some (JDict items) \<Rightarrow> map_option (\<lambda>ls. report_json_section # ls) (json_lines items)
      | Some _ \<Rightarrow> None)"

fun make_report :: "pystr \<Rightarrow> json \<Rightarrow> pystr list option" where
  "make_report now (JDict result) =
     (case (schema_section result, json_section result) of
        (Some ss, Some js) \<Rightarrow> Some ([report_header @ now @ [10], [10]] @ ss @ js)
      | _ \<Rightarrow> None)"
| "make_report now v = None"

text \<open>
  The part of \<open>main\<close> between the loading of the schemas and the writing of the
  report: \<open>run_checker\<close>, \<open>remove_empty_from_dict\<close>, \<open>make_report\<close>. The outer
  \<open>Inl\<close> is an exception that ends the program.
\<close>

definition main_report ::
  "pystr \<Rightarrow> schemas \<Rightarrow> dir_entry list \<Rightarrow> py_exception + pystr list option" where
  "main_report now schemas files_paths =
     (case run_checker schemas files_paths of
        Inl err \<Rightarrow> Inl err
      | Inr result \<Rightarrow> Inr (make_report now (remove_empty_from_dict result)))"

section \<open>Notions the properties are stated with\<close>

text \<open>
  The items a dictionary keeps and the elements a list keeps, read off the conditions of
  \<open>remove_empty_from_dict\<close> (that the function agrees with them is proved below).
\<close>

definition keep_item :: "json \<Rightarrow> bool" where
  "keep_item v = (\<not> is_None v \<and> \<not> eq_empty_str v \<and> (is_int_or_float v \<or> truthy v))"

definition keep_elem :: "json \<Rightarrow> bool" where
  "keep_elem v = (\<not> is_None v \<and> str_strip_truthy v)"

text \<open>
  The numeric leaves of a value, in order, each with the path that leads to it: the keys
  of the dictionaries and a mark for each list on the way (the position in a list is
  left out, since removing an element moves the later ones).
\<close>

datatype step = Key pystr | Elem

fun num_leaves :: "json \<Rightarrow> (step list \<times> json) list"
and num_leaves_items :: "(pystr \<times> json) list \<Rightarrow> (step list \<times> json) list"
and num_leaves_elems :: "json list \<Rightarrow> (step list \<times> json) list" where
  "num_leaves (JInt i) = [([], JInt i)]"
| "num_leaves (JFloat r) = [([], JFloat r)]"
| "num_leaves (JDict kvs) = num_leaves_items kvs"
| "num_leaves (JList xs) = num_leaves_elems xs"
| "num_leaves JNull = []"
| "num_leaves (JBool b) = []"
| "num_leaves (JStr s) = []"
| "num_leaves_items [] = []"
| "num_leaves_items (kv # kvs) =
     map (\<lambda>pn. (Key (fst kv) # fst pn, snd pn)) (num_leaves (snd kv)) @ num_leaves_items kvs"
| "num_leaves_elems [] = []"
| "num_leaves_elems (v # vs) =
     map (\<lambda>pn. (Elem # fst pn, snd pn)) (num_leaves v) @ num_leaves_elems vs"

text \<open>What one round of the loop of \<open>schema_loader\<close> stores for a file.\<close>

definition stored_schema :: "jsonschema_lib \<Rightarrow> dir_entry \<Rightarrow> schema_obj" where
  "stored_schema lib f =
     (case try_load_schema lib f of
        Inr validator \<Rightarrow> Draft7Validator validator
      | Inl err \<Rightarrow> CorruptedSchema (Raised err))"

text \<open>\<open>result["json_errors"].get(name)\<close> on the result of \<open>run_checker\<close>.\<close>

definition json_errors_for :: "json \<Rightarrow> pystr \<Rightarrow> json option" where
  "json_errors_for result name =
     (case result of
        JDict items \<Rightarrow>
          (case map_of items (ascii ''json_errors'') of
             Some (JDict errors) \<Rightarrow> map_of errors name
           | _ \<Rightarrow> None)
      | _ \<Rightarrow> None)"

text \<open>The messages \<open>check_file\<close> appends, none when it raises.\<close>

definition appended :: "schemas \<Rightarrow> dir_entry \<Rightarrow> pystr list" where
  "appended schemas f = (case check_file schemas f of Inr msgs \<Rightarrow> msgs | Inl err \<Rightarrow> [])"

section \<open>Example inputs\<close>

text \<open>
  A validator for a schema that requires the properties \<open>name\<close> and \<open>age\<close> of an
  object, as \<open>jsonschema\<close> reports them: one error for each missing property, in the
  order of the schema, with the message first in the \<open>str\<close> of the error.
\<close>

definition required_error :: "pystr \<Rightarrow> validation_error" where
  "required_error prop =
     \<lparr>message = [39] @ prop @ [39] @ ascii '' is a required property'',
      error_str = [39] @ prop @ [39] @ ascii '' is a required property'' @ [10, 10] @
                  ascii ''Failed validating required in schema''\<rparr>"

fun example_validator :: iter_errors where
  "example_validator (JDict kvs) =
     Inr (concat (map (\<lambda>prop. if map_of kvs prop = None then [required_error prop] else [])
       [ascii ''name'', ascii ''age'']))"
| "example_validator v = Inr []"

definition example_parse_error :: py_exception where
  "example_parse_error =
     PyExc (ascii ''JSONDecodeError'') (ascii ''Expecting value: line 1 column 1 (char 0)'')"

text \<open>The schema dictionary for \<open>user.json\<close> holding that schema and \<open>bad.json\<close>
  holding text that is not JSON.\<close>

definition example_schemas :: schemas where
  "example_schemas =
     [(ascii ''user'', Draft7Validator example_validator),
      (ascii ''bad'', CorruptedSchema (Raised example_parse_error))]"

text \<open>\<open>doc1.json\<close>: \<open>{"event": "user", "data": {"name": "Alice", "age": 30}}\<close>.\<close>

definition doc1 :: dir_entry where
  "doc1 = \<lparr>stem = ascii ''doc1'', open_error = None,
            json_load = Inr (JDict [(ascii ''event'', JStr (ascii ''user'')),
                                    (ascii ''data'', JDict [(ascii ''name'', JStr (ascii ''Alice'')),
                                                            (ascii ''age'', JInt 30)])])\<rparr>"

text \<open>\<open>doc2.json\<close>: \<open>{"event": "user", "data": {}}\<close>.\<close>

definition doc2 :: dir_entry where
  "doc2 = \<lparr>stem = ascii ''doc2'', open_error = None,
            json_load = Inr (JDict [(ascii ''event'', JStr (ascii ''user'')),
                                    (ascii ''data'', JDict [])])\<rparr>"

text \<open>\<open>doc2.txt\<close>, a second file with the stem \<open>doc2\<close>, holding text that is not
  JSON.\<close>

definition doc2_txt :: dir_entry where
  "doc2_txt = \<lparr>stem = ascii ''doc2'', open_error = None, json_load = Inl example_parse_error\<rparr>"

text \<open>\<open>doc4.json\<close>: \<open>{"event": "bad", "data": {}}\<close>.\<close>

definition doc4 :: dir_entry where
  "doc4 = \<lparr>stem = ascii ''doc4'', open_error = None,
            json_load = Inr (JDict [(ascii ''event'', JStr (ascii ''bad'')),
                                    (ascii ''data'', JDict [])])\<rparr>"

text \<open>\<open>doc5.json\<close>: \<open>{"event": "bad"}\<close>.\<close>

definition doc5 :: dir_entry where
  "doc5 = \<lparr>stem = ascii ''doc5'', open_error = None,
            json_load = Inr (JDict [(ascii ''event'', JStr (ascii ''bad''))])\<rparr>"

text \<open>
  The two schema files, and a stand-in for the library that accepts an object as a
  schema, rejects any other value, and compiles every schema to the validator above.
\<close>

definition example_schema_error :: py_exception where
  "example_schema_error = PyExc (ascii ''SchemaError'') (ascii ''not a valid schema'')"

definition example_lib :: jsonschema_lib where
  "example_lib =
     \<lparr>check_schema = (\<lambda>v. case v of JDict kvs \<Rightarrow> None | _ \<Rightarrow> Some example_schema_error),
      new_Draft7Validator = (\<lambda>v. Inr example_validator)\<rparr>"

definition user_json :: dir_entry where
  "user_json = \<lparr>stem = ascii ''user'', open_error = None,
                 json_load = Inr (JDict [(ascii ''required'',
                                          JList [JStr (ascii ''name''), JStr (ascii ''age'')])])\<rparr>"

definition bad_json :: dir_entry where
  "bad_json = \<lparr>stem = ascii ''bad'', open_error = None, json_load = Inl example_parse_error\<rparr>"

text \<open>
  A schema file \<open>ref.json\<close>, \<open>{"$ref": "missing.json"}\<close>, whose reference cannot
  be resolved: the library accepts it as a schema and compiles it, and the validator
  raises when its errors are asked for. \<open>doc6.json\<close> is
  \<open>{"event": "ref", "data": {}}\<close>.
\<close>

definition example_ref_error :: py_exception where
  "example_ref_error = PyExc (ascii ''RefResolutionError'') (ascii ''unresolvable reference'')"

definition ref_validator :: iter_errors where
  "ref_validator data = Inl example_ref_error"

definition ref_lib :: jsonschema_lib where
  "ref_lib = \<lparr>check_schema = (\<lambda>v. None), new_Draft7Validator = (\<lambda>v. Inr ref_validator)\<rparr>"

definition ref_json :: dir_entry where
  "ref_json = \<lparr>stem = ascii ''ref'', open_error = None,
                json_load = Inr (JDict [(ascii ''$ref'', JStr (ascii ''missing.json''))])\<rparr>"

definition ref_schemas :: schemas where
  "ref_schemas = [(ascii ''ref'', Draft7Validator ref_validator)]"

definition doc6 :: dir_entry where
  "doc6 = \<lparr>stem = ascii ''doc6'', open_error = None,
            json_load = Inr (JDict [(ascii ''event'', JStr (ascii ''ref'')),
                                    (ascii ''data'', JDict [])])\<rparr>"

section \<open>Properties of pruning\<close>

subsection \<open>What pruning does to a value\<close>

lemma is_None_prune: "is_None (remove_empty_from_dict v) = is_None v"
  by (cases v) simp_all

lemma str_strip_truthy_prune:
  "str_strip_truthy (remove_empty_from_dict v) = str_strip_truthy v"
  by (cases v) simp_all

lemma truthy_prune: "truthy (remove_empty_from_dict v) \<Longrightarrow> truthy v"
  by (cases v) auto

lemma keep_item_iff:
  "keep_item v \<longleftrightarrow> v \<notin> {JNull, JStr [], JBool False, JList [], JDict []}"
  by (cases v) (auto simp: keep_item_def)

lemma prune_elems_eq: "prune_elems xs = map remove_empty_from_dict (filter keep_elem xs)"
  by (induction xs) (auto simp: keep_elem_def is_None_prune str_strip_truthy_prune)

lemma dict_set_fresh: "k \<notin> fst ` set temp \<Longrightarrow> dict_set temp k v = temp @ [(k, v)]"
  by (induction temp) auto

text \<open>With distinct keys, every assignment \<open>_temp[k] = ...\<close> of the loop adds a new
  key, so the loop is a filter followed by a map.\<close>

lemma prune_items_eq:
  "distinct (map fst kvs) \<Longrightarrow> fst ` set kvs \<inter> fst ` set temp = {} \<Longrightarrow>
   prune_items kvs temp =
     temp @ map (\<lambda>kv. (fst kv, remove_empty_from_dict (snd kv)))
              (filter (\<lambda>kv. keep_item (snd kv)) kvs)"
proof (induction kvs arbitrary: temp)
  case Nil
  then show ?case by simp
next
  case (Cons kv kvs)
  obtain k v where kv: "kv = (k, v)" by (cases kv)
  have fresh: "k \<notin> fst ` set temp" using Cons.prems kv by auto
  have d: "distinct (map fst kvs)" using Cons.prems by simp
  have disj1: "fst ` set kvs \<inter> fst ` set temp = {}" using Cons.prems by auto
  have disj2: "fst ` set kvs \<inter> fst ` set (temp @ [(k, w)]) = {}" for w
    using Cons.prems kv by auto
  show ?case
  proof (cases "keep_item v")
    case True
    then have "prune_items (kv # kvs) temp =
        prune_items kvs (temp @ [(k, remove_empty_from_dict v)])"
      using fresh by (auto simp: kv keep_item_def dict_set_fresh)
    then show ?thesis using Cons.IH[OF d disj2] True by (simp add: kv)
  next
    case False
    then have "prune_items (kv # kvs) temp = prune_items kvs temp"
      using truthy_prune[of v] by (auto simp: kv keep_item_def)
    then show ?thesis using Cons.IH[OF d disj1] False by (simp add: kv)
  qed
qed

lemma prune_dict_eq:
  "distinct (map fst kvs) \<Longrightarrow>
   prune_items kvs [] =
     map (\<lambda>kv. (fst kv, remove_empty_from_dict (snd kv)))
       (filter (\<lambda>kv. keep_item (snd kv)) kvs)"
  using prune_items_eq[of kvs "[]"] by simp

lemma not_keep_item_leaves: "\<not> keep_item v \<Longrightarrow> num_leaves v = []"
  by (cases v) (auto simp: keep_item_def)

lemma not_keep_elem_leaves: "\<not> keep_elem v \<Longrightarrow> num_leaves v = []"
  by (cases v) (auto simp: keep_elem_def)

lemma num_leaves_prune_aux:
  "(wf_json x \<longrightarrow> num_leaves (remove_empty_from_dict x) = num_leaves x)"
  "(wf_items kvs \<longrightarrow>
      num_leaves_items (map (\<lambda>kv. (fst kv, remove_empty_from_dict (snd kv)))
        (filter (\<lambda>kv. keep_item (snd kv)) kvs)) = num_leaves_items kvs)"
  "(wf_elems xs \<longrightarrow>
      num_leaves_elems (map remove_empty_from_dict (filter keep_elem xs)) =
        num_leaves_elems xs)"
proof (induction x and kvs and xs rule: wf_json_wf_items_wf_elems.induct)
  case (1 kvs)
  then show ?case by (simp add: prune_dict_eq)
next
  case (2 xs)
  then show ?case by (simp add: prune_elems_eq)
next
  case (9 kv kvs)
  then show ?case by (simp add: not_keep_item_leaves)
next
  case (11 v vs)
  then show ?case by (simp add: not_keep_elem_leaves)
qed simp_all

subsection \<open>Numbers are kept\<close>

text \<open>
  Claim C6. Pruning never removes a numeric leaf: for every JSON value (a value whose
  dictionaries have distinct keys), the numeric leaves of the pruned value, \<open>0\<close> and
  \<open>0.0\<close> among them, are those of the value, in the same order and under the same
  keys, whether a number is the value of a key or an element of a list, at any depth.
\<close>

theorem prune_keeps_numbers:
  assumes "wf_json x"
  shows "num_leaves (remove_empty_from_dict x) = num_leaves x"
  using assms num_leaves_prune_aux(1) by blast

theorem prune_keeps_numbers_witness:
  "wf_json (JDict [(ascii ''a'', JDict [(ascii ''b'', JInt 0), (ascii ''c'', JNull)]),
                   (ascii ''d'', JList [JFloat 0, JNull, JList [JInt 0, JStr []]]),
                   (ascii ''e'', JDict [])])
   \<and> num_leaves (remove_empty_from_dict
         (JDict [(ascii ''a'', JDict [(ascii ''b'', JInt 0), (ascii ''c'', JNull)]),
                 (ascii ''d'', JList [JFloat 0, JNull, JList [JInt 0, JStr []]]),
                 (ascii ''e'', JDict [])]))
     = [([Key (ascii ''a''), Key (ascii ''b'')], JInt 0),
        ([Key (ascii ''d''), Elem], JFloat 0),
        ([Key (ascii ''d''), Elem, Elem], JInt 0)]"
  using prune_keeps_numbers
    [of "JDict [(ascii ''a'', JDict [(ascii ''b'', JInt 0), (ascii ''c'', JNull)]),
                (ascii ''d'', JList [JFloat 0, JNull, JList [JInt 0, JStr []]]),
                (ascii ''e'', JDict [])]"]
  by (simp add: ascii_def)

subsection \<open>Nothing new appears\<close>

text \<open>
  Claim C9. Pruning introduces no new content. For a JSON value \<open>x\<close>: if \<open>x\<close> is a
  dictionary, the items of the pruned dictionary are, in order, some of the items of
  \<open>x\<close>, each key with the pruned form of its value (so the keys are a subset of the
  keys of \<open>x\<close>); if \<open>x\<close> is a list, the pruned list holds the pruned forms of a
  subsequence of the elements of \<open>x\<close>, in order; any other value is returned as it is.
\<close>

theorem prune_no_new_content:
  assumes "wf_json x"
  shows "case x of
           JDict kvs \<Rightarrow>
             (\<exists>kept. subseq kept kvs \<and>
                remove_empty_from_dict x =
                  JDict (map (\<lambda>kv. (fst kv, remove_empty_from_dict (snd kv))) kept))
         | JList xs \<Rightarrow>
             (\<exists>kept. subseq kept xs \<and>
                remove_empty_from_dict x = JList (map remove_empty_from_dict kept))
         | _ \<Rightarrow> remove_empty_from_dict x = x"
proof (cases x)
  case (JDict kvs)
  have d: "distinct (map fst kvs)" using assms JDict by simp
  have "\<exists>kept. subseq kept kvs \<and>
          remove_empty_from_dict (JDict kvs) =
            JDict (map (\<lambda>kv. (fst kv, remove_empty_from_dict (snd kv))) kept)"
    by (rule exI[of _ "filter (\<lambda>kv. keep_item (snd kv)) kvs"])
       (simp add: prune_dict_eq[OF d])
  then show ?thesis by (simp add: JDict)
next
  case (JList xs)
  have "\<exists>kept. subseq kept xs \<and>
          remove_empty_from_dict (JList xs) = JList (map remove_empty_from_dict kept)"
    by (rule exI[of _ "filter keep_elem xs"]) (simp add: prune_elems_eq)
  then show ?thesis by (simp add: JList)
qed simp_all

theorem prune_no_new_content_witness:
  "wf_json (JDict [(ascii ''a'', JNull), (ascii ''b'', JList [JNull, JInt 1])])
   \<and> (\<exists>kept. subseq kept [(ascii ''a'', JNull), (ascii ''b'', JList [JNull, JInt 1])] \<and>
         remove_empty_from_dict
           (JDict [(ascii ''a'', JNull), (ascii ''b'', JList [JNull, JInt 1])]) =
         JDict (map (\<lambda>kv. (fst kv, remove_empty_from_dict (snd kv))) kept))"
  using prune_no_new_content
    [of "JDict [(ascii ''a'', JNull), (ascii ''b'', JList [JNull, JInt 1])]"]
  by (simp add: ascii_def)

subsection \<open>Pruning twice\<close>

text \<open>
  Claim C4 says that pruning is idempotent. The function does not do that: a key whose
  value is a non-empty container is kept whatever the container prunes to (the test
  \<open>v or remove_empty_from_dict(v)\<close> is already true by \<open>v\<close>), so the dictionary
  \<open>{"a": {"b": null}}\<close> is pruned to \<open>{"a": {}}\<close>, and pruning that gives \<open>{}\<close>.
\<close>

theorem prune_not_idempotent:
  "remove_empty_from_dict (JDict [(ascii ''a'', JDict [(ascii ''b'', JNull)])])
     = JDict [(ascii ''a'', JDict [])]
   \<and> remove_empty_from_dict
       (remove_empty_from_dict (JDict [(ascii ''a'', JDict [(ascii ''b'', JNull)])]))
     = JDict []"
  by (simp add: ascii_def)

subsection \<open>What is removed, and \<open>false\<close>\<close>

lemma in_prune_elems:
  "w \<in> set (prune_elems xs) \<longleftrightarrow>
     (\<exists>v \<in> set xs. keep_elem v \<and> w = remove_empty_from_dict v)"
  by (auto simp: prune_elems_eq)

lemma prune_eq_JNull: "remove_empty_from_dict v = JNull \<longleftrightarrow> v = JNull"
  by (cases v) simp_all

lemma prune_eq_JStr: "remove_empty_from_dict v = JStr s \<longleftrightarrow> v = JStr s"
  by (cases v) auto

lemma strip_Nil: "strip [] = []"
  by (simp add: strip_def)

text \<open>
  Claim C5 as stated fails: \<open>false\<close> as the value of a key is removed (a \<open>bool\<close> is
  neither \<open>int\<close> nor \<open>float\<close> for \<open>type(v) is ...\<close>, and it is not true), and the
  empty list and the empty dictionary stay where they are elements of a list.
\<close>

theorem prune_removes_empty_counterexample:
  "remove_empty_from_dict (JDict [(ascii ''a'', JBool False)]) = JDict []
   \<and> remove_empty_from_dict (JList [JList [], JDict []]) = JList [JList [], JDict []]"
  by (simp add: ascii_def)

text \<open>
  Claim C5, amended. From a dictionary (with distinct keys), pruning removes every key
  whose value is \<open>null\<close>, the empty string, the empty dictionary, the empty list or
  \<open>false\<close>; from a list it removes every \<open>null\<close> and every empty string, and keeps
  \<open>false\<close>; \<open>false\<close> itself is pruned to \<open>false\<close>. So a \<open>false\<close> is preserved
  as an element of a list and as the value that is pruned, but not as the value of a key.
\<close>

theorem prune_removes_empty:
  assumes "distinct (map fst kvs)"
      and "(k, v) \<in> set kvs"
      and "v \<in> {JNull, JStr [], JDict [], JList [], JBool False}"
  shows "(\<exists>kvs'. remove_empty_from_dict (JDict kvs) = JDict kvs' \<and> k \<notin> fst ` set kvs')
       \<and> (\<exists>ys. remove_empty_from_dict (JList xs) = JList ys
              \<and> JNull \<notin> set ys \<and> JStr [] \<notin> set ys
              \<and> (JBool False \<in> set xs \<longrightarrow> JBool False \<in> set ys))
       \<and> remove_empty_from_dict (JBool False) = JBool False"
proof -
  have nk: "\<not> keep_item v" using assms(3) by (auto simp: keep_item_iff)
  have "k \<notin> fst ` set (filter (\<lambda>kv. keep_item (snd kv)) kvs)"
  proof
    assume "k \<in> fst ` set (filter (\<lambda>kv. keep_item (snd kv)) kvs)"
    then obtain w where w: "(k, w) \<in> set kvs" "keep_item w" by auto
    from assms(1) assms(2) w(1) have "w = v"
      by (meson eq_key_imp_eq_value)
    with nk w(2) show False by simp
  qed
  then have a: "k \<notin> fst ` set (prune_items kvs [])"
    by (simp add: prune_dict_eq[OF assms(1)] image_image)
  have b: "JNull \<notin> set (prune_elems xs)"
    by (auto simp: in_prune_elems prune_eq_JNull keep_elem_def dest: sym)
  have c: "JStr [] \<notin> set (prune_elems xs)"
    by (auto simp: in_prune_elems keep_elem_def strip_Nil prune_eq_JStr
          dest!: sym[of "JStr []"])
  have d: "JBool False \<in> set xs \<longrightarrow> JBool False \<in> set (prune_elems xs)"
    by (force simp: in_prune_elems keep_elem_def)
  show ?thesis using a b c d by simp
qed

theorem prune_removes_empty_witness:
  "distinct (map fst [(ascii ''a'', JBool False), (ascii ''b'', JInt 0)])
   \<and> (ascii ''a'', JBool False) \<in> set [(ascii ''a'', JBool False), (ascii ''b'', JInt 0)]
   \<and> JBool False \<in> {JNull, JStr [], JDict [], JList [], JBool False}
   \<and> (\<exists>kvs'. remove_empty_from_dict (JDict [(ascii ''a'', JBool False), (ascii ''b'', JInt 0)])
               = JDict kvs' \<and> ascii ''a'' \<notin> fst ` set kvs')
   \<and> (\<exists>ys. remove_empty_from_dict (JList [JNull, JBool False, JStr []]) = JList ys
          \<and> JNull \<notin> set ys \<and> JStr [] \<notin> set ys \<and> JBool False \<in> set ys)"
  using prune_removes_empty
    [of "[(ascii ''a'', JBool False), (ascii ''b'', JInt 0)]" "ascii ''a''" "JBool False"
        "[JNull, JBool False, JStr []]"]
  by (simp add: ascii_def)

subsection \<open>The elements of a list\<close>

text \<open>
  Claim C10 as stated fails: the \<open>str\<close> of \<open>None\<close> is not blank, and yet a
  \<open>null\<close> element is removed, by the second condition of the comprehension.
\<close>

theorem prune_list_elements_counterexample:
  "str_strip_truthy JNull \<and> remove_empty_from_dict (JList [JNull]) = JList []"
  by simp

text \<open>
  Claim C10, amended. The elements of a list are not judged as the values of a
  dictionary are: the pruned list holds, in order, the pruned forms of exactly the
  elements that are not \<open>null\<close> and whose \<open>str\<close> is not blank. So \<open>false\<close>, the
  empty dictionary and the empty list stay when they are elements of a list.
\<close>

theorem prune_list_elements:
  "remove_empty_from_dict (JList xs) =
     JList (map remove_empty_from_dict
              (filter (\<lambda>v. \<not> is_None v \<and> str_strip_truthy v) xs))
   \<and> (\<forall>v \<in> set xs. v \<in> {JBool False, JDict [], JList []} \<longrightarrow>
         (\<exists>ys. remove_empty_from_dict (JList xs) = JList ys \<and> v \<in> set ys))"
proof -
  have eq: "remove_empty_from_dict (JList xs) =
     JList (map remove_empty_from_dict
              (filter (\<lambda>v. \<not> is_None v \<and> str_strip_truthy v) xs))"
    using prune_elems_eq[of xs] by (simp add: keep_elem_def[abs_def])
  have "v \<in> set (prune_elems xs)" if "v \<in> set xs" "v \<in> {JBool False, JDict [], JList []}" for v
    using that by (force simp: in_prune_elems keep_elem_def)
  then show ?thesis using eq by simp
qed

theorem prune_list_elements_witness:
  "remove_empty_from_dict
     (JList [JNull, JBool False, JStr (ascii '' ''), JDict [], JList [], JStr (ascii ''x'')])
   = JList [JBool False, JDict [], JList [], JStr (ascii ''x'')]"
  using prune_list_elements
    [of "[JNull, JBool False, JStr (ascii '' ''), JDict [], JList [], JStr (ascii ''x'')]"]
  by (simp add: ascii_def strip_def is_space_def)

section \<open>Properties of the checks\<close>

subsection \<open>Dictionaries as lists of items\<close>

lemma map_of_dict_set:
  "map_of (dict_set kvs k v) k' = (if k' = k then Some v else map_of kvs k')"
  by (induction kvs) auto

lemma map_fst_dict_set:
  "map fst (dict_set kvs k v) = (if k \<in> fst ` set kvs then map fst kvs else map fst kvs @ [k])"
  by (induction kvs) force+

lemma keys_dict_set: "fst ` set (dict_set kvs k v) = insert k (fst ` set kvs)"
  using arg_cong[OF map_fst_dict_set[of kvs k v], of set] by auto

lemma distinct_dict_set:
  "distinct (map fst kvs) \<Longrightarrow> distinct (map fst (dict_set kvs k v))"
  by (simp add: map_fst_dict_set)

lemma map_of_dict_extend:
  "map_of (dict_extend kvs k new) k' =
     (if k' = k then map_option (\<lambda>old. old @ new) (map_of kvs k') else map_of kvs k')"
  by (induction kvs) auto

lemma map_of_init_aux:
  "map_of (foldl (\<lambda>d f. dict_set d (stem f) []) d0 files) k =
     (if k \<in> stem ` set files then Some [] else map_of d0 k)"
  by (induction files arbitrary: d0) (auto simp: map_of_dict_set)

lemma map_of_init_errors:
  "map_of (init_errors files) k = (if k \<in> stem ` set files then Some [] else None)"
  by (simp add: init_errors_def map_of_init_aux)

lemma check_files_lookup:
  "check_files schemas fs errs = Inr errs' \<Longrightarrow>
   map_of errs' k =
     map_option (\<lambda>old. old @ concat (map (appended schemas) (filter (\<lambda>g. stem g = k) fs)))
       (map_of errs k)"
proof (induction fs arbitrary: errs)
  case Nil
  then show ?case by (simp add: option.map_ident)
next
  case (Cons f fs)
  then obtain msgs where m: "check_file schemas f = Inr msgs"
    and r: "check_files schemas fs (dict_extend errs (stem f) msgs) = Inr errs'"
    by (auto split: sum.splits)
  show ?case
    using Cons.IH[OF r] m
    by (cases "map_of errs k") (auto simp: map_of_dict_extend appended_def)
qed

lemma map_of_json_errors_of:
  "map_of (json_errors_of errors) k = map_option (\<lambda>msgs. JList (map JStr msgs)) (map_of errors k)"
  by (induction errors) (auto simp: json_errors_of_def)

lemma ascii_keys_differ: "ascii ''schema_errors'' \<noteq> ascii ''json_errors''"
  by (simp add: ascii_def)

lemma run_checker_lookup:
  assumes "run_checker schemas files = Inr result"
  shows "json_errors_for result k =
           (if k \<in> stem ` set files
            then Some (JList (map JStr (concat (map (appended schemas) (filter (\<lambda>g. stem g = k) files)))))
            else None)"
proof -
  from assms obtain errors where
    e: "check_files schemas files (init_errors files) = Inr errors"
    and r: "result = JDict [(ascii ''schema_errors'', JDict (schema_errors_of schemas)),
                      (ascii ''json_errors'', JDict (json_errors_of errors))]"
    by (auto simp: run_checker_def split: sum.splits)
  show ?thesis
    using check_files_lookup[OF e, of k]
    by (simp add: r json_errors_for_def ascii_keys_differ ascii_keys_differ[symmetric]
          map_of_json_errors_of map_of_init_errors)
qed

lemma filter_unique:
  "distinct (map g xs) \<Longrightarrow> x \<in> set xs \<Longrightarrow> filter (\<lambda>y. g y = g x) xs = [x]"
proof (induction xs)
  case Nil
  then show ?case by simp
next
  case (Cons a xs)
  show ?case
  proof (cases "a = x")
    case True
    have "filter (\<lambda>y. g y = g x) xs = []"
      using Cons.prems True by (fastforce simp: filter_empty_conv image_iff)
    then show ?thesis using True by simp
  next
    case False
    then have "x \<in> set xs" using Cons.prems by simp
    moreover have "g a \<noteq> g x" using Cons.prems \<open>x \<in> set xs\<close> by auto
    ultimately show ?thesis using Cons by simp
  qed
qed

lemma check_event_key_empty: "check_event_key v = [] \<longleftrightarrow> (\<exists>s. v = JStr s)"
  by (cases v) auto

lemma check_data_key_empty: "check_data_key v = [] \<longleftrightarrow> v \<noteq> JNull"
  by (cases v) auto

lemma check_file_valid:
  assumes "reader f = Inr (JDict event_json)"
      and "dict_get event_json (ascii ''event'') = JStr name"
      and "dict_get event_json (ascii ''data'') \<noteq> JNull"
      and "map_of schemas name = Some (Draft7Validator iter_errors)"
      and "iter_errors (dict_get event_json (ascii ''data'')) = Inr errors"
  shows "check_file schemas f = Inr (map message (sort_key error_str errors))"
  using assms by (simp add: check_file_def check_schema_key_def check_data_key_empty Let_def)

text \<open>The loop returns when no round raises.\<close>

lemma check_files_returns:
  "\<forall>g \<in> set fs. \<exists>msgs. check_file schemas g = Inr msgs \<Longrightarrow>
   \<exists>errors'. check_files schemas fs errors = Inr errors'"
  by (induction fs arbitrary: errors) auto

lemma run_checker_returns:
  "\<forall>g \<in> set files. \<exists>msgs. check_file schemas g = Inr msgs \<Longrightarrow>
   \<exists>result. run_checker schemas files = Inr result"
  using check_files_returns[of files schemas "init_errors files"]
  by (auto simp: run_checker_def)

lemmas ex_defs = example_schemas_def doc1_def doc2_def doc4_def doc5_def ascii_def
  reader_def dict_get_def check_file_def check_schema_key_def required_error_def
  run_checker_def init_errors_def json_errors_of_def json_errors_for_def

subsection \<open>A document with a valid schema\<close>

text \<open>
  Claim C3 as stated fails. The lists of \<open>run_checker\<close> are kept by stem, so two files
  with one stem share a list: with \<open>doc2.json\<close> and \<open>doc2.txt\<close> in the directory,
  the list under \<open>doc2\<close> holds the two messages of the validator for \<open>doc2.json\<close>
  and then the message for \<open>doc2.txt\<close>. And the errors of the validator are
  consumed in no \<open>try\<close>: \<open>schema_loader\<close> stores \<open>ref.json\<close> as a compiled
  validator, \<open>iter_errors\<close> of it raises, and for \<open>doc6.json\<close>, which names it,
  \<open>run_checker\<close> ends with the exception and there is no list.
\<close>

theorem check_data_sorted_violations_counterexample:
  "reader doc2 = Inr (JDict [(ascii ''event'', JStr (ascii ''user'')), (ascii ''data'', JDict [])])
   \<and> map_of example_schemas (ascii ''user'') = Some (Draft7Validator example_validator)
   \<and> example_validator (JDict []) =
       Inr [required_error (ascii ''name''), required_error (ascii ''age'')]
   \<and> run_checker example_schemas [doc2, doc2_txt] =
       Inr (JDict [(ascii ''schema_errors'',
                    JDict [(ascii ''bad'',
                            JStr (str_CorruptedSchema (Raised example_parse_error)))]),
                   (ascii ''json_errors'',
                    JDict [(ascii ''doc2'',
                            JList [JStr (message (required_error (ascii ''age''))),
                                   JStr (message (required_error (ascii ''name''))),
                                   JStr msg_not_json])])])
   \<and> schema_loader ref_lib [ref_json] = ref_schemas
   \<and> reader doc6 = Inr (JDict [(ascii ''event'', JStr (ascii ''ref'')), (ascii ''data'', JDict [])])
   \<and> map_of ref_schemas (ascii ''ref'') = Some (Draft7Validator ref_validator)
   \<and> check_file ref_schemas doc6 = Inl example_ref_error
   \<and> run_checker ref_schemas [doc6] = Inl example_ref_error"
  by (simp add: ex_defs doc2_txt_def doc6_def ref_schemas_def ref_validator_def
        schema_loader_def load_schema_def try_load_schema_def ref_lib_def ref_json_def)

text \<open>
  Claim C3, amended. For a document whose parsed value is an object with a string under
  \<open>event\<close> and a value other than \<open>null\<close> under \<open>data\<close>, where the string
  names a schema of the dictionary that is a compiled validator, and for which the
  validator yields its errors on \<open>data\<close> (it does not raise): the messages
  \<open>run_checker\<close> appends for the document are exactly the messages of those errors,
  sorted ascending by the \<open>str\<close> of the errors. In a run that returns, and a run
  returns when no file of it raises, the list under the stem of the document in
  \<open>"json_errors"\<close> is exactly that list if the document is the only file of the run
  with its stem.
\<close>

theorem check_data_sorted_violations:
  assumes "reader f = Inr (JDict event_json)"
      and "dict_get event_json (ascii ''event'') = JStr name"
      and "dict_get event_json (ascii ''data'') \<noteq> JNull"
      and "map_of schemas name = Some (Draft7Validator iter_errors)"
      and "iter_errors (dict_get event_json (ascii ''data'')) = Inr errors"
  shows "check_file schemas f = Inr (map message (sort_key error_str errors))
       \<and> sorted (map error_str (sort_key error_str errors))
       \<and> (\<forall>files result.
            filter (\<lambda>g. stem g = stem f) files = [f] \<and> run_checker schemas files = Inr result \<longrightarrow>
            json_errors_for result (stem f) =
              Some (JList (map JStr (map message (sort_key error_str errors)))))
       \<and> (\<forall>files.
            (\<forall>g \<in> set files. \<exists>msgs. check_file schemas g = Inr msgs) \<longrightarrow>
            (\<exists>result. run_checker schemas files = Inr result))"
proof -
  have a: "check_file schemas f = Inr (map message (sort_key error_str errors))"
    using assms by (rule check_file_valid)
  have b: "json_errors_for result (stem f) =
              Some (JList (map JStr (map message (sort_key error_str errors))))"
    if only: "filter (\<lambda>g. stem g = stem f) files = [f]"
      and ret: "run_checker schemas files = Inr result"
    for files result
  proof -
    have "f \<in> set (filter (\<lambda>g. stem g = stem f) files)" using only by simp
    then have "stem f \<in> stem ` set files" by auto
    then show ?thesis
      using run_checker_lookup[OF ret, of "stem f"] only a by (simp add: appended_def)
  qed
  have c: "sorted (map error_str (sort_key error_str errors))"
    by simp
  have d: "\<exists>result. run_checker schemas files = Inr result"
    if "\<forall>g \<in> set files. \<exists>msgs. check_file schemas g = Inr msgs" for files
    using that by (rule run_checker_returns)
  show ?thesis using a b c d by blast
qed

theorem check_data_sorted_violations_witness:
  "reader doc2 = Inr (JDict [(ascii ''event'', JStr (ascii ''user'')), (ascii ''data'', JDict [])])
   \<and> dict_get [(ascii ''event'', JStr (ascii ''user'')), (ascii ''data'', JDict [])] (ascii ''event'')
       = JStr (ascii ''user'')
   \<and> dict_get [(ascii ''event'', JStr (ascii ''user'')), (ascii ''data'', JDict [])] (ascii ''data'')
       \<noteq> JNull
   \<and> map_of example_schemas (ascii ''user'') = Some (Draft7Validator example_validator)
   \<and> example_validator
         (dict_get [(ascii ''event'', JStr (ascii ''user'')), (ascii ''data'', JDict [])]
            (ascii ''data''))
       = Inr [required_error (ascii ''name''), required_error (ascii ''age'')]
   \<and> check_file example_schemas doc2 =
       Inr [message (required_error (ascii ''age'')), message (required_error (ascii ''name''))]
   \<and> filter (\<lambda>g. stem g = stem doc2) [doc1, doc2] = [doc2]
   \<and> (\<exists>result. run_checker example_schemas [doc1, doc2] = Inr result
        \<and> json_errors_for result (stem doc2) =
            Some (JList [JStr (message (required_error (ascii ''age''))),
                         JStr (message (required_error (ascii ''name'')))]))"
  using check_data_sorted_violations
    [of doc2 "[(ascii ''event'', JStr (ascii ''user'')), (ascii ''data'', JDict [])]"
        "ascii ''user''" example_schemas example_validator
        "[required_error (ascii ''name''), required_error (ascii ''age'')]"]
  by (simp add: ex_defs)

subsection \<open>A document that names a corrupted schema\<close>

text \<open>
  Claim C1 says that a document whose \<open>event\<close> names a \<open>CorruptedSchema\<close> gets the
  error "errors were found in the given schema". The function does not do that:
  \<open>check_schema_key\<close> tests \<open>schemas[name] is CorruptedSchema\<close>, the identity of an
  instance with its class, which never holds (\<open>run_checker\<close> itself uses
  \<open>isinstance\<close> for the same question). For \<open>{"event": "bad", "data": {}}\<close> no
  error is found and \<open>check_data\<close> is called with the \<open>CorruptedSchema\<close>, which
  raises; for \<open>{"event": "bad"}\<close> the list holds the message about the missing data
  only.
\<close>

theorem corrupted_schema_not_reported:
  "check_schema_key (ascii ''bad'') example_schemas = []
   \<and> check_file example_schemas doc4 = Inl no_iter_errors
   \<and> check_file example_schemas doc5 = Inr [msg_no_data]
   \<and> msg_schema_corrupted \<noteq> msg_no_data"
  by (simp add: ex_defs msg_schema_corrupted_def msg_no_data_def)

text \<open>
  Claim C2 says that no exception leaves the processing of a document and that the run
  over all documents completes. With the defect of C1 a document with \<open>data\<close> whose
  \<open>event\<close> names a corrupted schema raises \<open>AttributeError\<close> in \<open>check_data\<close>,
  outside any \<open>try\<close>, and \<open>run_checker\<close> ends with it: no result for any document.
\<close>

theorem run_checker_raises:
  "run_checker example_schemas [doc1, doc4, doc2] = Inl no_iter_errors"
  by (simp add: ex_defs)

subsection \<open>Loading the schemas\<close>

lemma load_schema_eq:
  "load_schema lib schemas f = dict_set schemas (stem f) (stored_schema lib f)"
  by (simp add: load_schema_def stored_schema_def split: sum.splits)

lemma loader_snoc:
  "foldl (load_schema lib) acc (files @ [f]) =
     dict_set (foldl (load_schema lib) acc files) (stem f) (stored_schema lib f)"
  by (simp add: load_schema_eq)

lemma loader_keys:
  "fst ` set (foldl (load_schema lib) acc files) = fst ` set acc \<union> stem ` set files"
proof (induction files rule: rev_induct)
  case Nil
  then show ?case by simp
next
  case (snoc f files)
  then show ?case by (simp only: loader_snoc keys_dict_set) auto
qed

lemma loader_distinct:
  "distinct (map fst acc) \<Longrightarrow> distinct (map fst (foldl (load_schema lib) acc files))"
proof (induction files rule: rev_induct)
  case Nil
  then show ?case by simp
next
  case (snoc f files)
  then show ?case by (simp only: loader_snoc distinct_dict_set)
qed

lemma loader_lookup:
  "map_of (foldl (load_schema lib) acc files) name =
     (case find (\<lambda>f. stem f = name) (rev files) of
        None \<Rightarrow> map_of acc name
      | Some f \<Rightarrow> Some (stored_schema lib f))"
proof (induction files rule: rev_induct)
  case Nil
  then show ?case by simp
next
  case (snoc f files)
  then show ?case by (simp add: load_schema_eq map_of_dict_set)
qed

text \<open>
  Claim C7. \<open>schema_loader\<close> returns, for any files and whatever the library does
  (it is a total function: no exception leaves it), a dictionary with distinct keys
  that are exactly the stems of the files; under a stem it holds what the last file
  with that stem was loaded to; a file whose loading raised \<open>err\<close>, in \<open>open\<close>, in
  \<open>json.load\<close>, in \<open>check_schema\<close> or in the constructor of the validator, is
  loaded to \<open>CorruptedSchema(err)\<close>, and the files after it are loaded all the same;
  and loading more files removes no key. (After the loading the dictionary is only
  read: \<open>run_checker\<close> takes it as an argument and returns no new one.)
\<close>

theorem schema_loader_entries:
  "distinct (map fst (schema_loader lib files))
   \<and> fst ` set (schema_loader lib files) = stem ` set files
   \<and> map_of (schema_loader lib files) name =
       map_option (stored_schema lib) (find (\<lambda>f. stem f = name) (rev files))
   \<and> (\<forall>err. try_load_schema lib f = Inl err \<longrightarrow>
         stored_schema lib f = CorruptedSchema (Raised err))
   \<and> (\<forall>err. open_error f = Some err \<longrightarrow> try_load_schema lib f = Inl err)
   \<and> (\<forall>err. open_error f = None \<and> json_load f = Inl err \<longrightarrow> try_load_schema lib f = Inl err)
   \<and> (\<forall>err js. open_error f = None \<and> json_load f = Inr js \<and> check_schema lib js = Some err \<longrightarrow>
         try_load_schema lib f = Inl err)
   \<and> (\<forall>err js. open_error f = None \<and> json_load f = Inr js \<and> check_schema lib js = None \<and>
         new_Draft7Validator lib js = Inl err \<longrightarrow> try_load_schema lib f = Inl err)
   \<and> fst ` set (schema_loader lib files) \<subseteq> fst ` set (schema_loader lib (files @ later))"
proof -
  have a: "distinct (map fst (schema_loader lib files))"
    unfolding schema_loader_def by (rule loader_distinct) simp
  have b: "fst ` set (schema_loader lib files') = stem ` set files'" for files'
    unfolding schema_loader_def by (simp add: loader_keys)
  have c: "map_of (schema_loader lib files) name =
       map_option (stored_schema lib) (find (\<lambda>f. stem f = name) (rev files))"
    unfolding schema_loader_def by (simp add: loader_lookup split: option.splits)
  have d: "\<forall>err. try_load_schema lib f = Inl err \<longrightarrow>
         stored_schema lib f = CorruptedSchema (Raised err)"
    by (simp add: stored_schema_def)
  have e: "\<forall>err. open_error f = Some err \<longrightarrow> try_load_schema lib f = Inl err"
    by (simp add: try_load_schema_def)
  have f: "\<forall>err. open_error f = None \<and> json_load f = Inl err \<longrightarrow> try_load_schema lib f = Inl err"
    by (simp add: try_load_schema_def)
  have g: "\<forall>err js. open_error f = None \<and> json_load f = Inr js \<and> check_schema lib js = Some err \<longrightarrow>
         try_load_schema lib f = Inl err"
    by (simp add: try_load_schema_def)
  have h: "\<forall>err js. open_error f = None \<and> json_load f = Inr js \<and> check_schema lib js = None \<and>
         new_Draft7Validator lib js = Inl err \<longrightarrow> try_load_schema lib f = Inl err"
    by (simp add: try_load_schema_def)
  have i: "fst ` set (schema_loader lib files) \<subseteq> fst ` set (schema_loader lib (files @ later))"
    by (simp only: b) auto
  show ?thesis by (intro conjI a b c d e f g h i)
qed

theorem schema_loader_entries_witness:
  "open_error bad_json = None \<and> json_load bad_json = Inl example_parse_error
   \<and> map_of (schema_loader example_lib [bad_json, user_json]) (ascii ''bad'')
       = Some (CorruptedSchema (Raised example_parse_error))
   \<and> fst ` set (schema_loader example_lib [bad_json, user_json]) = {ascii ''bad'', ascii ''user''}"
proof -
  note t = schema_loader_entries
    [of example_lib "[bad_json, user_json]" "ascii ''bad''" bad_json "[]"]
  have keys: "fst ` set (schema_loader example_lib [bad_json, user_json]) =
      stem ` set [bad_json, user_json]"
    using t by (elim conjE)
  have entry: "map_of (schema_loader example_lib [bad_json, user_json]) (ascii ''bad'') =
      map_option (stored_schema example_lib)
        (find (\<lambda>f. stem f = ascii ''bad'') (rev [bad_json, user_json]))"
    using t by (elim conjE)
  have failed: "try_load_schema example_lib bad_json = Inl example_parse_error"
    using t by (simp add: bad_json_def)
  have stored: "stored_schema example_lib bad_json = CorruptedSchema (Raised example_parse_error)"
    using t failed by (elim conjE) simp
  have "stem user_json \<noteq> ascii ''bad''"
    by (simp add: user_json_def ascii_def)
  then show ?thesis
    using keys entry stored by (simp add: bad_json_def user_json_def)
qed

subsection \<open>The report of a run without errors\<close>

text \<open>
  Claim C8 says that the report of a run in which no schema is corrupted and no document
  has an error holds the header only. The program does not do that as soon as there is
  a document: the result \<open>{"schema_errors": {}, "json_errors": {"doc1": []}}\<close> is pruned
  to \<open>{"json_errors": {}}\<close> (the defect of C4: the non-empty dictionary under
  \<open>"json_errors"\<close> is kept although it prunes to an empty one), and \<open>make_report\<close>
  writes the heading of the JSON section for the key it finds.
\<close>

theorem report_without_errors:
  "run_checker [(ascii ''user'', Draft7Validator example_validator)] [doc1] =
     Inr (JDict [(ascii ''schema_errors'', JDict []),
                 (ascii ''json_errors'', JDict [(ascii ''doc1'', JList [])])])
   \<and> remove_empty_from_dict
       (JDict [(ascii ''schema_errors'', JDict []),
               (ascii ''json_errors'', JDict [(ascii ''doc1'', JList [])])])
     = JDict [(ascii ''json_errors'', JDict [])]
   \<and> main_report now [(ascii ''user'', Draft7Validator example_validator)] [doc1] =
       Inr (Some [report_header @ now @ [10], [10], report_json_section])"
  by (simp add: ex_defs main_report_def schema_section_def json_section_def)

end
